theory Spec2Isabelle
  imports Complex_Main "HOL-Library.Sublist"
begin

section \<open>The inference handlers of the placeholder model\<close>

text \<open>
  The theory embeds the two request handlers that
  \<^verbatim>\<open>create_placeholder_model.py\<close> writes into \<^verbatim>\<open>inference.py\<close>:
  \<^verbatim>\<open>input_fn\<close> (the normaliser) and \<^verbatim>\<open>output_fn\<close> (the formatter).
  Three library functions are called by them and are not part of the repository:
  \<^item> \<^verbatim>\<open>json.loads\<close> is a parameter of \<open>input_fn\<close>: a function from the request body to
    the decoded value, or \<open>None\<close> where it raises \<^verbatim>\<open>json.JSONDecodeError\<close>;
  \<^item> \<^verbatim>\<open>np.array\<close> is modelled by \<open>np_array\<close> below;
  \<^item> \<^verbatim>\<open>json.dumps(result)\<close> is represented by the dictionary \<^verbatim>\<open>result\<close> that it
    serialises.
\<close>

subsection \<open>Decoded JSON values and Python exceptions\<close>

text \<open>
  What \<^verbatim>\<open>json.loads\<close> returns: \<^verbatim>\<open>None\<close>, a \<^verbatim>\<open>bool\<close>, an \<^verbatim>\<open>int\<close> (of any size), a
  \<^verbatim>\<open>float\<close>, a \<^verbatim>\<open>str\<close>, a \<^verbatim>\<open>list\<close> or a \<^verbatim>\<open>dict\<close> with string keys. A \<^verbatim>\<open>float\<close> is
  modelled by the real number it holds; which \<^verbatim>\<open>float\<close> a numeral of the body denotes is
  the decoder's business. \<^verbatim>\<open>NaN\<close> and the infinities are not modelled. A \<^verbatim>\<open>dict\<close> is an
  association list in insertion order; the first binding of a key is the one that counts.
\<close>

datatype json =
    JNull
  | JBool bool
  | JInt int
  | JFloat real
  | JStr string
  | JArr "json list"
  | JObj "(string \<times> json) list"

text \<open>The number a decoded value holds, if it is an \<^verbatim>\<open>int\<close> or a \<^verbatim>\<open>float\<close>. Python's
  \<^verbatim>\<open>==\<close> compares an \<^verbatim>\<open>int\<close> and a \<^verbatim>\<open>float\<close> by these numbers.\<close>

fun number_value :: "json \<Rightarrow> real option" where
  "number_value (JInt n) = Some (of_int n)"
| "number_value (JFloat r) = Some r"
| "number_value _ = None"

text \<open>
  The exceptions the handlers can raise, by class. \<^verbatim>\<open>json.JSONDecodeError\<close> is a subclass
  of \<^verbatim>\<open>ValueError\<close> in Python; it is a class of its own all the same, and a handler can
  tell the two apart. A \<^verbatim>\<open>ValueError\<close> carries its message.
\<close>

datatype error =
    JSONDecodeError
  | ValueError string
  | TypeError
  | AttributeError
  | KeyError

subsection \<open>Python's operations on decoded values\<close>

text \<open>\<^verbatim>\<open>key in input_data\<close>: key membership on a \<^verbatim>\<open>dict\<close>, element membership on a
  \<^verbatim>\<open>list\<close>, substring test on a \<^verbatim>\<open>str\<close>, and a \<^verbatim>\<open>TypeError\<close> on anything else.\<close>

fun py_contains :: "string \<Rightarrow> json \<Rightarrow> error + bool" where
  "py_contains k (JObj kvs) = Inr (map_of kvs k \<noteq> None)"
| "py_contains k (JArr xs) = Inr (List.member xs (JStr k))"
| "py_contains k (JStr s) = Inr (sublist k s)"
| "py_contains k _ = Inl TypeError"

text \<open>\<^verbatim>\<open>input_data[key]\<close> with a string key. The handlers index only after the membership
  test, so on a \<^verbatim>\<open>dict\<close> the \<^verbatim>\<open>KeyError\<close> branch is never taken; a \<^verbatim>\<open>list\<close> or a
  \<^verbatim>\<open>str\<close> indexed by a string raises \<^verbatim>\<open>TypeError\<close>.\<close>

fun py_getitem :: "json \<Rightarrow> string \<Rightarrow> error + json" where
  "py_getitem (JObj kvs) k =
     (case map_of kvs k of None \<Rightarrow> Inl KeyError | Some v \<Rightarrow> Inr v)"
| "py_getitem _ k = Inl TypeError"

text \<open>\<^verbatim>\<open>contact.get(key, default)\<close> on a \<^verbatim>\<open>dict\<close>.\<close>

definition dict_get :: "(string \<times> json) list \<Rightarrow> string \<Rightarrow> json \<Rightarrow> json" where
  "dict_get c k dflt = (case map_of c k of None \<Rightarrow> dflt | Some v \<Rightarrow> v)"

text \<open>The keys of a \<^verbatim>\<open>dict\<close>, each once, in insertion order.\<close>

fun dict_keys :: "(string \<times> json) list \<Rightarrow> string list" where
  "dict_keys [] = []"
| "dict_keys ((k, v) # kvs) = k # filter (\<lambda>k'. k' \<noteq> k) (dict_keys kvs)"

text \<open>\<^verbatim>\<open>for contact in value\<close>: the elements of a \<^verbatim>\<open>list\<close>, the keys of a \<^verbatim>\<open>dict\<close>, the
  characters of a \<^verbatim>\<open>str\<close>; anything else is not iterable.\<close>

fun py_iter :: "json \<Rightarrow> error + json list" where
  "py_iter (JArr xs) = Inr xs"
| "py_iter (JObj kvs) = Inr (map JStr (dict_keys kvs))"
| "py_iter (JStr s) = Inr (map (\<lambda>c. JStr [c]) s)"
| "py_iter _ = Inl TypeError"

subsection \<open>\<^verbatim>\<open>np.array\<close>\<close>

text \<open>
  \<^verbatim>\<open>np.array\<close> of a Python list, as numpy 1.24.3 (the version pinned by
  \<^verbatim>\<open>create_requirements\<close>) builds it on a 64-bit Linux. Numpy first discovers the shape: a
  list adds a dimension when all its elements have one common shape; every other value is a
  scalar. \<open>shape_of\<close> returns \<open>None\<close> where the nesting is ragged.
\<close>

fun shape_of :: "json \<Rightarrow> nat list option" where
  "shape_of (JArr xs) =
     (let ss = map shape_of xs in
      if xs = [] then Some [0]
      else if list_all (\<lambda>s. s \<noteq> None \<and> s = hd ss) ss then Some (length xs # the (hd ss))
      else None)"
| "shape_of _ = Some []"

text \<open>The scalars of a nesting, in row-major order.\<close>

fun leaves :: "json \<Rightarrow> json list" where
  "leaves (JArr xs) = concat (map leaves xs)"
| "leaves v = [v]"

text \<open>
  Then numpy picks one element type for the whole array. Each scalar proposes a type: a
  \<^verbatim>\<open>bool\<close> proposes \<^verbatim>\<open>bool\<close>, a \<^verbatim>\<open>float\<close> \<^verbatim>\<open>float64\<close>, a \<^verbatim>\<open>str\<close> a string type, an
  \<^verbatim>\<open>int\<close> \<^verbatim>\<open>int64\<close> if it fits, else \<^verbatim>\<open>uint64\<close> if it fits, else \<^verbatim>\<open>object\<close>; \<^verbatim>\<open>None\<close>
  and a \<^verbatim>\<open>dict\<close> propose \<^verbatim>\<open>object\<close>.
\<close>

datatype dtype = Bool | Int64 | UInt64 | Float64 | Unicode | Object

fun scalar_dtype :: "json \<Rightarrow> dtype" where
  "scalar_dtype (JBool b) = Bool"
| "scalar_dtype (JInt n) =
     (if - (2 ^ 63) \<le> n \<and> n < 2 ^ 63 then Int64
      else if 2 ^ 63 \<le> n \<and> n < 2 ^ 64 then UInt64
      else Object)"
| "scalar_dtype (JFloat r) = Float64"
| "scalar_dtype (JStr s) = Unicode"
| "scalar_dtype _ = Object"

text \<open>
  The element type of the array is the least type all proposals promote to: \<^verbatim>\<open>object\<close>
  above the string type, the string type above \<^verbatim>\<open>float64\<close>, \<^verbatim>\<open>float64\<close> above both
  integer types, which are above \<^verbatim>\<open>bool\<close>; \<^verbatim>\<open>int64\<close> and \<^verbatim>\<open>uint64\<close> together promote to
  \<^verbatim>\<open>float64\<close>. An array without a scalar is a \<^verbatim>\<open>float64\<close> array.
\<close>

definition result_type :: "dtype list \<Rightarrow> dtype" where
  "result_type ds =
     (if ds = [] then Float64
      else if Object \<in> set ds then Object
      else if Unicode \<in> set ds then Unicode
      else if Float64 \<in> set ds then Float64
      else if Int64 \<in> set ds \<and> UInt64 \<in> set ds then Float64
      else if UInt64 \<in> set ds then UInt64
      else if Int64 \<in> set ds then Int64
      else Bool)"

definition array_dtype :: "json list \<Rightarrow> dtype" where
  "array_dtype xs = result_type (map scalar_dtype (concat (map leaves xs)))"

text \<open>
  A 64-bit integer stored in a \<^verbatim>\<open>float64\<close> array is rounded to the nearest number with a
  significand of 53 bits, to the even significand when it is half way. Up to \<open>2\<^sup>5\<^sup>3\<close> every
  integer is such a number. \<open>excess_bits m\<close> is the number of bits \<open>m\<close> has beyond 53.
\<close>

function excess_bits :: "int \<Rightarrow> nat" where
  "excess_bits m = (if m < 2 ^ 53 then 0 else Suc (excess_bits (m div 2)))"
  by pat_completeness auto
termination
  by (relation "measure nat") auto

declare excess_bits.simps [simp del]

text \<open>The rounding of a magnitude \<open>m \<ge> 0\<close>, and of an integer with its sign.\<close>

definition float64_of_magnitude :: "int \<Rightarrow> real" where
  "float64_of_magnitude m =
     (if m \<le> 2 ^ 53 then of_int m
      else
        (let s = excess_bits m;
             q = m div 2 ^ s;
             r = m mod 2 ^ s;
             half = 2 ^ (s - 1)
         in of_int ((if half < r \<or> (r = half \<and> odd q) then q + 1 else q) * 2 ^ s)))"

definition float64_of_int :: "int \<Rightarrow> real" where
  "float64_of_int n = (if n < 0 then - float64_of_magnitude (- n) else float64_of_magnitude n)"

text \<open>
  The conversion of the entries to a numeric element type: in a \<^verbatim>\<open>float64\<close> array an
  \<^verbatim>\<open>int\<close> is rounded and a \<^verbatim>\<open>bool\<close> becomes 0.0 or 1.0; in an integer array a \<^verbatim>\<open>bool\<close>
  becomes 0 or 1. Every other entry is stored as it is (so is every entry of a \<^verbatim>\<open>bool\<close>
  array and of an \<^verbatim>\<open>object\<close> array).
\<close>

fun cast :: "dtype \<Rightarrow> json \<Rightarrow> json" where
  "cast dt (JArr xs) = JArr (map (cast dt) xs)"
| "cast Float64 (JInt n) = JFloat (float64_of_int n)"
| "cast Float64 (JBool b) = JFloat (if b then 1 else 0)"
| "cast Int64 (JBool b) = JInt (if b then 1 else 0)"
| "cast UInt64 (JBool b) = JInt (if b then 1 else 0)"
| "cast dt v = v"

text \<open>
  An array is its shape and its entries, converted, in their nesting. In an array of the
  string type every entry that is not a \<^verbatim>\<open>str\<close> is replaced by the text Python writes for
  it (\<^verbatim>\<open>12\<close> by \<^verbatim>\<open>'12'\<close>, \<^verbatim>\<open>0.5\<close> by \<^verbatim>\<open>'0.5'\<close>). The model does not compute these texts:
  \<open>StrArray sh xs\<close> is the array of the texts of the entries \<open>xs\<close>.
\<close>

datatype ndarray =
    NDArray (shape: "nat list") (tolist: "json list")
  | StrArray "nat list" "json list"

fun is_string :: "json \<Rightarrow> bool" where
  "is_string (JStr s) = True"
| "is_string _ = False"

text \<open>A ragged nesting, or one deeper than numpy's 32 dimensions, raises
  \<^verbatim>\<open>ValueError\<close>; the model keeps the first sentence of numpy's message.\<close>

definition np_array :: "json list \<Rightarrow> error + ndarray" where
  "np_array xs =
     (case shape_of (JArr xs) of
        None \<Rightarrow> Inl (ValueError ''setting an array element with a sequence.'')
      | Some sh \<Rightarrow>
          if length sh \<le> 32 then
            (if array_dtype xs = Unicode \<and> \<not> list_all is_string (concat (map leaves xs))
             then Inr (StrArray sh xs)
             else Inr (NDArray sh (map (cast (array_dtype xs)) xs)))
          else Inl (ValueError ''setting an array element with a sequence.''))"

subsection \<open>\<^verbatim>\<open>input_fn\<close>\<close>

text \<open>The body of the loop over the contacts: \<^verbatim>\<open>contact.get\<close> exists on a \<^verbatim>\<open>dict\<close>
  only, every other value raises \<^verbatim>\<open>AttributeError\<close>.\<close>

fun contact_row :: "json \<Rightarrow> error + json" where
  "contact_row (JObj contact) =
     Inr (JArr [dict_get contact ''day_of_week'' (JInt 0),
                dict_get contact ''hour_of_day'' (JInt 12),
                dict_get contact ''previous_answer_rate'' (JFloat 0.5)])"
| "contact_row _ = Inl AttributeError"

text \<open>The loop itself, with the list \<^verbatim>\<open>features\<close> it appends to.\<close>

fun build_features :: "json list \<Rightarrow> json list \<Rightarrow> error + json list" where
  "build_features [] features = Inr features"
| "build_features (contact # rest) features =
     (case contact_row contact of
        Inl e \<Rightarrow> Inl e
      | Inr row \<Rightarrow> build_features rest (features @ [row]))"

definition input_fn :: "(string \<Rightarrow> json option) \<Rightarrow> string \<Rightarrow> string \<Rightarrow> error + ndarray" where
  "input_fn json_loads request_body content_type =
     (if content_type = ''application/json'' then
        (case json_loads request_body of
           None \<Rightarrow> Inl JSONDecodeError
         | Some input_data \<Rightarrow>
             (case py_contains ''features'' input_data of
                Inl e \<Rightarrow> Inl e
              | Inr True \<Rightarrow>
                  (case py_getitem input_data ''features'' of
                     Inl e \<Rightarrow> Inl e
                   | Inr row \<Rightarrow> np_array [row])
              | Inr False \<Rightarrow>
                  (case py_contains ''contacts'' input_data of
                     Inl e \<Rightarrow> Inl e
                   | Inr True \<Rightarrow>
                       (case py_getitem input_data ''contacts'' of
                          Inl e \<Rightarrow> Inl e
                        | Inr contacts \<Rightarrow>
                            (case py_iter contacts of
                               Inl e \<Rightarrow> Inl e
                             | Inr items \<Rightarrow>
                                 (case build_features items [] of
                                    Inl e \<Rightarrow> Inl e
                                  | Inr features \<Rightarrow> np_array features)))
                   | Inr False \<Rightarrow>
                       Inl (ValueError ''Input must contain 'features' or 'contacts' key''))))
      else Inl (ValueError (''Unsupported content type: '' @ content_type)))"

subsection \<open>\<^verbatim>\<open>output_fn\<close>\<close>

text \<open>
  The argument of \<^verbatim>\<open>output_fn\<close> is the dictionary \<^verbatim>\<open>predict_fn\<close> returns: the labels
  (an integer array) under \<^verbatim>\<open>'predictions'\<close> and the matrix of class probabilities, one
  row for each label, under \<^verbatim>\<open>'probabilities'\<close>. The dictionary it builds has the keys
  \<^verbatim>\<open>'optimal_hours'\<close> and \<^verbatim>\<open>'confidence'\<close>.
\<close>

record prediction =
  predictions :: "int list"
  probabilities :: "real list list"

record response =
  optimal_hours :: "int list"
  confidence :: "real list"

text \<open>Python's \<^verbatim>\<open>max\<close> of an iterable: \<^verbatim>\<open>ValueError\<close> when it is empty; otherwise the
  first item is the candidate, and a later item replaces it when it is greater.\<close>

fun py_max :: "real list \<Rightarrow> error + real" where
  "py_max [] = Inl (ValueError ''max() arg is an empty sequence'')"
| "py_max (x # xs) = Inr (fold (\<lambda>item best. if item > best then item else best) xs x)"

text \<open>The comprehension \<^verbatim>\<open>[float(max(probs)) for probs in probabilities]\<close>.\<close>

fun max_of_rows :: "real list list \<Rightarrow> error + real list" where
  "max_of_rows [] = Inr []"
| "max_of_rows (probs # rest) =
     (case py_max probs of
        Inl e \<Rightarrow> Inl e
      | Inr m \<Rightarrow>
          (case max_of_rows rest of
             Inl e \<Rightarrow> Inl e
           | Inr ms \<Rightarrow> Inr (m # ms)))"

definition output_fn :: "prediction \<Rightarrow> string \<Rightarrow> error + (response \<times> string)" where
  "output_fn prediction accept =
     (if accept = ''application/json'' then
        (case max_of_rows (probabilities prediction) of
           Inl e \<Rightarrow> Inl e
         | Inr conf \<Rightarrow>
             Inr (\<lparr>optimal_hours = predictions prediction, confidence = conf\<rparr>, accept))
      else Inl (ValueError (''Unsupported accept type: '' @ accept)))"

subsection \<open>The inputs of the data model\<close>

text \<open>
  The handlers check no types. The properties below are about the payloads the contract
  describes: a feature is a number, and a contact of a batch is a mapping in which each of
  the three feature keys, where present, is bound to a number (other keys are free).
\<close>

fun is_number :: "json \<Rightarrow> bool" where
  "is_number (JInt n) = True"
| "is_number (JFloat r) = True"
| "is_number _ = False"

text \<open>
  A number that every numeric array holds exactly: a \<^verbatim>\<open>float\<close>, or an \<^verbatim>\<open>int\<close> of
  magnitude \<open>2\<^sup>5\<^sup>3\<close> at most.
\<close>

fun exact_number :: "json \<Rightarrow> bool" where
  "exact_number (JInt n) = (\<bar>n\<bar> \<le> 2 ^ 53)"
| "exact_number (JFloat r) = True"
| "exact_number _ = False"

definition numeric_field :: "(string \<times> json) list \<Rightarrow> string \<Rightarrow> bool" where
  "numeric_field c k = (case map_of c k of None \<Rightarrow> True | Some v \<Rightarrow> is_number v)"

fun PartialContact :: "json \<Rightarrow> bool" where
  "PartialContact (JObj c) =
     (numeric_field c ''day_of_week'' \<and> numeric_field c ''hour_of_day'' \<and>
      numeric_field c ''previous_answer_rate'')"
| "PartialContact _ = False"

text \<open>A row of three numbers, as \<open>contact_row\<close> builds it from such a contact.\<close>

fun numeric_row :: "json \<Rightarrow> bool" where
  "numeric_row (JArr [a, b, c]) = (is_number a \<and> is_number b \<and> is_number c)"
| "numeric_row _ = False"

text \<open>A decoded value on which Python's \<^verbatim>\<open>in\<close> is not defined: it is neither a \<^verbatim>\<open>dict\<close>,
  a \<^verbatim>\<open>list\<close> nor a \<^verbatim>\<open>str\<close>.\<close>

fun is_scalar_payload :: "json \<Rightarrow> bool" where
  "is_scalar_payload JNull = True"
| "is_scalar_payload (JBool b) = True"
| "is_scalar_payload (JInt n) = True"
| "is_scalar_payload (JFloat r) = True"
| "is_scalar_payload _ = False"

text \<open>
  A value is a sequence when \<^verbatim>\<open>json.loads\<close> made a \<^verbatim>\<open>list\<close> of it.
\<close>

fun is_sequence :: "json \<Rightarrow> bool" where
  "is_sequence (JArr xs) = True"
| "is_sequence _ = False"

text \<open>
  The classifier's output, as the contract describes it: every row of the probability
  matrix is a distribution, so its entries sum to 1 (and it has at least one entry: the
  classifier knows at least one label). Where a property needs the entries to be
  non-negative too, it says so.
\<close>

definition PredictionBatch :: "prediction \<Rightarrow> bool" where
  "PredictionBatch p = list_all (\<lambda>row. sum_list row = 1) (probabilities p)"

definition nonnegative_probabilities :: "prediction \<Rightarrow> bool" where
  "nonnegative_probabilities p = list_all (list_all (\<lambda>x. 0 \<le> x)) (probabilities p)"

subsection \<open>What the decoder rejects\<close>

text \<open>
  \<^verbatim>\<open>json.loads\<close> skips leading white space and then looks at the text that follows: a
  value starts with a double quote, a brace, a bracket, a digit, a minus sign before a
  digit, or one of the words \<^verbatim>\<open>null\<close>, \<^verbatim>\<open>true\<close>, \<^verbatim>\<open>false\<close>, \<^verbatim>\<open>NaN\<close>, \<^verbatim>\<open>Infinity\<close>,
  \<^verbatim>\<open>-Infinity\<close>. On any other text it raises \<^verbatim>\<open>json.JSONDecodeError\<close>. A decoder that
  does so satisfies \<open>rejects_non_values\<close>; nothing else is asked of the parameter
  \<open>json_loads\<close>, and only where a property says so.
\<close>

definition json_whitespace :: "char \<Rightarrow> bool" where
  "json_whitespace c = (c = CHR '' '' \<or> c = CHR 0x09 \<or> c = CHR 0x0A \<or> c = CHR 0x0D)"

definition is_digit :: "char \<Rightarrow> bool" where
  "is_digit c = (c \<in> set ''0123456789'')"

fun value_start :: "string \<Rightarrow> bool" where
  "value_start [] = False"
| "value_start (c # cs) =
     (c = CHR 0x22 \<or> c = CHR ''{'' \<or> c = CHR ''['' \<or> is_digit c \<or>
      (c = CHR ''-'' \<and> (case cs of [] \<Rightarrow> False | d # ds \<Rightarrow> is_digit d)) \<or>
      prefix ''null'' (c # cs) \<or> prefix ''true'' (c # cs) \<or> prefix ''false'' (c # cs) \<or>
      prefix ''NaN'' (c # cs) \<or> prefix ''Infinity'' (c # cs) \<or>
      prefix ''-Infinity'' (c # cs))"

definition rejects_non_values :: "(string \<Rightarrow> json option) \<Rightarrow> bool" where
  "rejects_non_values json_loads =
     (\<forall>s. \<not> value_start (dropWhile json_whitespace s) \<longrightarrow> json_loads s = None)"

subsection \<open>Request bodies used as examples\<close>

text \<open>
  Bodies as \<^verbatim>\<open>test_endpoint.py\<close> sends them (a single prediction, a batch of three
  contacts, a payload without a recognised key, text that is not JSON, the empty object),
  and more that the properties below speak about. Every \<^verbatim>\<open>float\<close> in them is a binary
  fraction, so the numeral is the number the \<^verbatim>\<open>float\<close> holds.
\<close>

definition body_single :: string where
  \<open>body_single = ''{"features": [1, 10, 0.5]}''\<close>

definition body_batch :: string where
  \<open>body_batch = ''{"contacts": [{"day_of_week": 1, "hour_of_day": 10, "previous_answer_rate": 0.5}, {"day_of_week": 2, "hour_of_day": 15, "previous_answer_rate": 0.25}, {"day_of_week": 5, "hour_of_day": 19, "previous_answer_rate": 0.75}]}''\<close>

definition body_data :: string where
  \<open>body_data = ''{"data": [1, 2, 3]}''\<close>

definition body_not_json :: string where
  \<open>body_not_json = ''not json''\<close>

definition body_empty_object :: string where
  \<open>body_empty_object = ''{}''\<close>

definition body_no_contacts :: string where
  \<open>body_no_contacts = ''{"contacts": []}''\<close>

definition body_empty_contact :: string where
  \<open>body_empty_contact = ''{"contacts": [{"hour_of_day": 9}, {}]}''\<close>

definition body_scalar_features :: string where
  \<open>body_scalar_features = ''{"features": 5}''\<close>

definition body_null_features :: string where
  \<open>body_null_features = ''{"features": null}''\<close>

definition body_both_keys :: string where
  \<open>body_both_keys = ''{"features": [1, 10, 0.5], "contacts": 5}''\<close>

definition body_big_features :: string where
  \<open>body_big_features = ''{"features": [9007199254740993, 10, 0.5]}''\<close>

definition body_big_contact :: string where
  \<open>body_big_contact = ''{"contacts": [{"day_of_week": 9007199254740993}]}''\<close>

definition body_number :: string where
  \<open>body_number = ''5''\<close>

text \<open>
  A decoder for the examples: it returns what \<^verbatim>\<open>json.loads\<close> returns on each of the
  bodies above, and rejects every other body, as \<^verbatim>\<open>json.loads\<close> rejects
  \<^verbatim>\<open>not json\<close>.
\<close>

definition sample_loads :: "string \<Rightarrow> json option" where
  "sample_loads s =
     (if s = body_single then
        Some (JObj [(''features'', JArr [JInt 1, JInt 10, JFloat 0.5])])
      else if s = body_batch then
        Some (JObj [(''contacts'', JArr
          [JObj [(''day_of_week'', JInt 1), (''hour_of_day'', JInt 10),
                 (''previous_answer_rate'', JFloat 0.5)],
           JObj [(''day_of_week'', JInt 2), (''hour_of_day'', JInt 15),
                 (''previous_answer_rate'', JFloat 0.25)],
           JObj [(''day_of_week'', JInt 5), (''hour_of_day'', JInt 19),
                 (''previous_answer_rate'', JFloat 0.75)]])])
      else if s = body_data then
        Some (JObj [(''data'', JArr [JInt 1, JInt 2, JInt 3])])
      else if s = body_empty_object then Some (JObj [])
      else if s = body_no_contacts then Some (JObj [(''contacts'', JArr [])])
      else if s = body_empty_contact then
        Some (JObj [(''contacts'', JArr [JObj [(''hour_of_day'', JInt 9)], JObj []])])
      else if s = body_scalar_features then Some (JObj [(''features'', JInt 5)])
      else if s = body_null_features then Some (JObj [(''features'', JNull)])
      else if s = body_both_keys then
        Some (JObj [(''features'', JArr [JInt 1, JInt 10, JFloat 0.5]), (''contacts'', JInt 5)])
      else if s = body_big_features then
        Some (JObj [(''features'', JArr [JInt 9007199254740993, JInt 10, JFloat 0.5])])
      else if s = body_big_contact then
        Some (JObj [(''contacts'', JArr [JObj [(''day_of_week'', JInt 9007199254740993)]])])
      else if s = body_number then Some (JInt 5)
      else None)"

section \<open>Properties of the normaliser\<close>

subsection \<open>Auxiliary facts\<close>

lemma is_number_cases: "is_number v \<Longrightarrow> (\<exists>n. v = JInt n) \<or> (\<exists>r. v = JFloat r)"
  by (cases v) simp_all

lemma float64_exact: "\<bar>n\<bar> \<le> 2 ^ 53 \<Longrightarrow> float64_of_int n = of_int n"
  by (auto simp: float64_of_int_def float64_of_magnitude_def)

lemma cast_number_value:
  "exact_number v \<Longrightarrow> number_value (cast dt v) = number_value v"
  by (cases v; cases dt) (simp_all add: float64_exact)

lemma cast_is_number: "is_number v \<Longrightarrow> is_number (cast dt v)"
  by (cases v; cases dt) simp_all

lemma number_shape: "is_number v \<Longrightarrow> shape_of v = Some []"
  by (cases v) simp_all

lemma number_leaves: "is_number v \<Longrightarrow> leaves v = [v]"
  by (cases v) simp_all

lemma number_dtype: "is_number v \<Longrightarrow> scalar_dtype v \<noteq> Unicode"
  by (cases v) simp_all

lemma result_type_Unicode: "Unicode \<notin> set ds \<Longrightarrow> result_type ds \<noteq> Unicode"
  by (simp add: result_type_def)

lemma numeric_row_cases:
  "numeric_row row \<Longrightarrow> \<exists>a b c. row = JArr [a, b, c] \<and> is_number a \<and> is_number b \<and> is_number c"
  by (induction row rule: numeric_row.induct) simp_all

lemma numeric_row_shape: "numeric_row row \<Longrightarrow> shape_of row = Some [3]"
  by (auto dest!: numeric_row_cases simp: number_shape)

lemma numeric_row_leaves: "numeric_row row \<Longrightarrow> list_all is_number (leaves row)"
  by (auto dest!: numeric_row_cases simp: number_leaves)

lemma numeric_rows_dtype:
  assumes "list_all numeric_row rows"
  shows "array_dtype rows \<noteq> Unicode"
proof -
  have "list_all is_number (concat (map leaves rows))"
    using assms numeric_row_leaves by (induction rows) auto
  then have "\<forall>v\<in>set (concat (map leaves rows)). scalar_dtype v \<noteq> Unicode"
    using number_dtype by (simp add: list_all_iff)
  then have "Unicode \<notin> set (map scalar_dtype (concat (map leaves rows)))"
    by force
  then show ?thesis
    unfolding array_dtype_def by (rule result_type_Unicode)
qed

lemma np_array_rows:
  assumes "list_all numeric_row rows"
  shows "np_array rows =
     Inr (NDArray (if rows = [] then [0] else [length rows, 3])
            (map (cast (array_dtype rows)) rows))"
proof (cases rows)
  case Nil
  then show ?thesis by (simp add: np_array_def array_dtype_def result_type_def)
next
  case (Cons r rs)
  from assms have "map shape_of rows = replicate (length rows) (Some [3])"
    using numeric_row_shape by (induction rows) simp_all
  with Cons numeric_rows_dtype [OF assms] show ?thesis
    by (simp add: np_array_def list_all_iff)
qed

lemma dict_get_number:
  "numeric_field c k \<Longrightarrow> is_number d \<Longrightarrow> is_number (dict_get c k d)"
  by (auto simp: numeric_field_def dict_get_def split: option.splits)

lemma contact_row_PartialContact:
  assumes "PartialContact c"
  shows "\<exists>row. contact_row c = Inr row \<and> numeric_row row"
proof (cases c)
  case (JObj kvs)
  with assms show ?thesis
    by (simp add: dict_get_number)
qed (use assms in simp_all)

lemma build_features_PartialContact:
  "list_all PartialContact cs \<Longrightarrow>
   \<exists>rows. build_features cs acc = Inr (acc @ rows) \<and> map contact_row cs = map Inr rows \<and>
          list_all numeric_row rows"
proof (induction cs arbitrary: acc)
  case Nil
  then show ?case by simp
next
  case (Cons c cs)
  from Cons.prems obtain row where row: "contact_row c = Inr row" "numeric_row row"
    using contact_row_PartialContact by auto
  from Cons.prems have "list_all PartialContact cs" by simp
  from Cons.IH [OF this, of "acc @ [row]"] obtain rows where
    "build_features cs (acc @ [row]) = Inr ((acc @ [row]) @ rows)"
    "map contact_row cs = map Inr rows" "list_all numeric_row rows"
    by blast
  with row show ?case
    by (intro exI [of _ "row # rows"]) simp
qed

lemma input_fn_features:
  assumes "json_loads request_body = Some (JObj payload)"
    and "map_of payload ''features'' = Some row"
  shows "input_fn json_loads request_body ''application/json'' = np_array [row]"
  using assms by (simp add: input_fn_def)

lemma input_fn_contacts:
  assumes "json_loads request_body = Some (JObj payload)"
    and "map_of payload ''features'' = None"
    and "map_of payload ''contacts'' = Some (JArr contacts)"
    and "list_all PartialContact contacts"
  shows "\<exists>rows. input_fn json_loads request_body ''application/json'' =
            Inr (NDArray (if contacts = [] then [0] else [length contacts, 3])
                   (map (cast (array_dtype rows)) rows)) \<and>
          map contact_row contacts = map Inr rows"
proof -
  from build_features_PartialContact [OF assms(4), of "[]"] obtain rows where rows:
    "build_features contacts [] = Inr rows" "map contact_row contacts = map Inr rows"
    "list_all numeric_row rows"
    by auto
  from rows(2) have len: "length rows = length contacts"
    by (metis length_map)
  have "input_fn json_loads request_body ''application/json'' = np_array rows"
    using assms(1-3) rows(1) by (simp add: input_fn_def)
  with np_array_rows [OF rows(3)] len rows(2) show ?thesis
    by auto
qed

lemmas body_defs = body_single_def body_batch_def body_data_def body_not_json_def
  body_empty_object_def body_no_contacts_def body_empty_contact_def body_scalar_features_def
  body_null_features_def body_both_keys_def body_big_features_def body_big_contact_def
  body_number_def

text \<open>The first integer that \<^verbatim>\<open>float64\<close> does not hold: \<open>2\<^sup>5\<^sup>3 + 1\<close> is half way between
  two neighbours and goes to the even one.\<close>

lemma float64_of_int_example: "float64_of_int 9007199254740993 = 9007199254740992"
proof -
  have "excess_bits 9007199254740993 = 1"
    by (simp add: excess_bits.simps)
  then show ?thesis
    by (simp add: float64_of_int_def float64_of_magnitude_def)
qed

subsection \<open>Single payloads\<close>

text \<open>
  Claim C1, as amended. For every well-formed Single payload (a decoded mapping whose key
  \<^verbatim>\<open>'features'\<close> is bound to a sequence of three numbers), \<open>input_fn\<close> with the content
  type \<^verbatim>\<open>application/json\<close> returns a matrix of exactly one row (shape \<open>1 \<times> 3\<close>). The
  elements of the row are the elements of the given triple in the given order, each
  converted to the element type of the array; an element that is a \<^verbatim>\<open>float\<close>, or an
  integer of magnitude \<open>2\<^sup>5\<^sup>3\<close> at most, keeps its value.
\<close>

theorem input_fn_single_row:
  assumes "json_loads request_body = Some (JObj payload)"
    and "map_of payload ''features'' = Some (JArr [a, b, c])"
    and "is_number a" and "is_number b" and "is_number c"
  shows "\<exists>a' b' c'.
           input_fn json_loads request_body ''application/json'' =
             Inr (NDArray [1, 3] [JArr [a', b', c']]) \<and>
           [a', b', c'] = map (cast (array_dtype [JArr [a, b, c]])) [a, b, c] \<and>
           (exact_number a \<longrightarrow> number_value a' = number_value a) \<and>
           (exact_number b \<longrightarrow> number_value b' = number_value b) \<and>
           (exact_number c \<longrightarrow> number_value c' = number_value c)"
proof -
  let ?dt = "array_dtype [JArr [a, b, c]]"
  have "list_all numeric_row [JArr [a, b, c]]"
    using assms(3-5) by simp
  from np_array_rows [OF this]
  have "np_array [JArr [a, b, c]] =
      Inr (NDArray [1, 3] [JArr [cast ?dt a, cast ?dt b, cast ?dt c]])"
    by simp
  with input_fn_features [of json_loads request_body payload, OF assms(1,2)]
  have "input_fn json_loads request_body ''application/json'' =
      Inr (NDArray [1, 3] [JArr [cast ?dt a, cast ?dt b, cast ?dt c]])"
    by simp
  then show ?thesis
    by (intro exI [of _ "cast ?dt a"] exI [of _ "cast ?dt b"] exI [of _ "cast ?dt c"])
      (simp add: cast_number_value)
qed

theorem input_fn_single_row_witness:
  "sample_loads body_single = Some (JObj [(''features'', JArr [JInt 1, JInt 10, JFloat 0.5])]) \<and>
   exact_number (JInt 1) \<and> exact_number (JInt 10) \<and> exact_number (JFloat 0.5) \<and>
   input_fn sample_loads body_single ''application/json'' =
     Inr (NDArray [1, 3] [JArr [JFloat 1, JFloat 10, JFloat 0.5]])"
proof -
  have h1: "sample_loads body_single =
      Some (JObj [(''features'', JArr [JInt 1, JInt 10, JFloat 0.5])])"
    by (simp add: sample_loads_def)
  have h2: "map_of [(''features'', JArr [JInt 1, JInt 10, JFloat 0.5])] ''features'' =
      Some (JArr [JInt 1, JInt 10, JFloat 0.5])"
    by simp
  have h3: "is_number (JInt 1)" and h4: "is_number (JInt 10)" and h5: "is_number (JFloat 0.5)"
    by simp_all
  from input_fn_single_row [of sample_loads body_single _ "JInt 1" "JInt 10" "JFloat 0.5",
      OF h1 h2 h3 h4 h5]
  obtain a' b' c' where
    m: "input_fn sample_loads body_single ''application/json'' =
          Inr (NDArray [1, 3] [JArr [a', b', c']])"
    by blast
  have e: "input_fn sample_loads body_single ''application/json'' =
     Inr (NDArray [1, 3] [JArr [JFloat 1, JFloat 10, JFloat 0.5]])"
    using h1 by (simp add: input_fn_def np_array_def array_dtype_def result_type_def
        float64_exact)
  have x: "exact_number (JInt 1) \<and> exact_number (JInt 10) \<and> exact_number (JFloat 0.5)"
    by simp
  from m h1 x e show ?thesis by blast
qed

text \<open>
  The claim as it was stated has the row equal to the triple for every triple. In
  \<^verbatim>\<open>{"features": [9007199254740993, 10, 0.5]}\<close> the \<^verbatim>\<open>float\<close> makes the array a
  \<^verbatim>\<open>float64\<close> array, and the first element comes back as \<open>9007199254740992\<close>.
\<close>

theorem input_fn_single_row_counterexample:
  "sample_loads body_big_features =
     Some (JObj [(''features'', JArr [JInt 9007199254740993, JInt 10, JFloat 0.5])]) \<and>
   input_fn sample_loads body_big_features ''application/json'' =
     Inr (NDArray [1, 3] [JArr [JFloat 9007199254740992, JFloat 10, JFloat 0.5]]) \<and>
   number_value (JFloat 9007199254740992) \<noteq> number_value (JInt 9007199254740993)"
  by (simp add: sample_loads_def body_defs input_fn_def np_array_def array_dtype_def
      result_type_def float64_of_int_example float64_exact)

subsection \<open>Batch payloads\<close>



text \<open>
  Claim C3, as amended. For every contact of a Batch payload, the row \<open>input_fn\<close> builds for
  it reads the keys \<^verbatim>\<open>day_of_week\<close>, \<^verbatim>\<open>hour_of_day\<close> and \<^verbatim>\<open>previous_answer_rate\<close> in this
  order and puts 0, 12 and 0.5 where the respective key is missing. Each of the three values
  is stored converted to the element type of the array; a value that is a \<^verbatim>\<open>float\<close>, or an
  integer of magnitude \<open>2\<^sup>5\<^sup>3\<close> at most, keeps its value. The empty contact \<^verbatim>\<open>{}\<close> gives
  the row \<open>(0, 12, 0.5)\<close>.
\<close>

theorem input_fn_batch_defaults:
  assumes "json_loads request_body = Some (JObj payload)"
    and "map_of payload ''features'' = None"
    and "map_of payload ''contacts'' = Some (JArr contacts)"
    and "list_all PartialContact contacts"
    and "i < length contacts"
    and "contacts ! i = JObj contact"
    and "day = (case map_of contact ''day_of_week'' of None \<Rightarrow> JInt 0 | Some v \<Rightarrow> v)"
    and "hour = (case map_of contact ''hour_of_day'' of None \<Rightarrow> JInt 12 | Some v \<Rightarrow> v)"
    and "rate = (case map_of contact ''previous_answer_rate'' of
                   None \<Rightarrow> JFloat 0.5 | Some v \<Rightarrow> v)"
  shows "\<exists>sh rows dt.
           input_fn json_loads request_body ''application/json'' = Inr (NDArray sh rows) \<and>
           rows ! i = JArr [cast dt day, cast dt hour, cast dt rate] \<and>
           (exact_number day \<longrightarrow> number_value (cast dt day) = number_value day) \<and>
           (exact_number hour \<longrightarrow> number_value (cast dt hour) = number_value hour) \<and>
           (exact_number rate \<longrightarrow> number_value (cast dt rate) = number_value rate) \<and>
           (contact = [] \<longrightarrow>
              map number_value [cast dt day, cast dt hour, cast dt rate] =
                [Some 0, Some 12, Some 0.5])"
proof -
  from input_fn_contacts [of json_loads request_body payload contacts, OF assms(1-4)]
  obtain built where built:
    "input_fn json_loads request_body ''application/json'' =
       Inr (NDArray (if contacts = [] then [0] else [length contacts, 3])
              (map (cast (array_dtype built)) built))"
    "map contact_row contacts = map Inr built"
    by blast
  let ?dt = "array_dtype built"
  from built(2) have len: "length built = length contacts"
    by (metis length_map)
  have "contact_row (contacts ! i) = Inr (built ! i)"
    using assms(5) built(2) len by (metis nth_map)
  with assms(6-9) have "built ! i = JArr [day, hour, rate]"
    by (auto simp: dict_get_def split: option.splits)
  with assms(5) len have row: "map (cast ?dt) built ! i =
      JArr [cast ?dt day, cast ?dt hour, cast ?dt rate]"
    by simp
  have empty: "map number_value [cast ?dt day, cast ?dt hour, cast ?dt rate] =
      [Some 0, Some 12, Some 0.5]" if "contact = []"
  proof -
    from that assms(7-9) have "day = JInt 0" "hour = JInt 12" "rate = JFloat 0.5"
      by simp_all
    then show ?thesis
      using cast_number_value [of "JInt 0" ?dt] cast_number_value [of "JInt 12" ?dt]
        cast_number_value [of "JFloat 0.5" ?dt]
      by simp
  qed
  from built(1) row empty show ?thesis
    by (intro exI [of _ "if contacts = [] then [0] else [length contacts, 3]"]
        exI [of _ "map (cast ?dt) built"] exI [of _ ?dt]) (simp add: cast_number_value)
qed

theorem input_fn_batch_defaults_witness:
  "sample_loads body_empty_contact =
     Some (JObj [(''contacts'', JArr [JObj [(''hour_of_day'', JInt 9)], JObj []])]) \<and>
   input_fn sample_loads body_empty_contact ''application/json'' =
     Inr (NDArray [2, 3] [JArr [JFloat 0, JFloat 9, JFloat 0.5],
                          JArr [JFloat 0, JFloat 12, JFloat 0.5]])"
proof -
  let ?cs = "[JObj [(''hour_of_day'', JInt 9)], JObj []]"
  have h1: "sample_loads body_empty_contact = Some (JObj [(''contacts'', JArr ?cs)])"
    by (simp add: sample_loads_def body_defs)
  have h2: "map_of [(''contacts'', JArr ?cs)] ''features'' = None" by simp
  have h3: "map_of [(''contacts'', JArr ?cs)] ''contacts'' = Some (JArr ?cs)" by simp
  have h4: "list_all PartialContact ?cs" by (simp add: numeric_field_def)
  have h5: "(1::nat) < length ?cs" by simp
  have h6: "?cs ! 1 = JObj []" by simp
  have h7: "JInt 0 = (case map_of [] ''day_of_week'' of None \<Rightarrow> JInt 0 | Some v \<Rightarrow> v)"
    and h8: "JInt 12 = (case map_of [] ''hour_of_day'' of None \<Rightarrow> JInt 12 | Some v \<Rightarrow> v)"
    and h9: "JFloat 0.5 = (case map_of [] ''previous_answer_rate'' of
                             None \<Rightarrow> JFloat 0.5 | Some v \<Rightarrow> v)"
    by simp_all
  from input_fn_batch_defaults [of sample_loads body_empty_contact _ ?cs 1 "[]"
      "JInt 0" "JInt 12" "JFloat 0.5", OF h1 h2 h3 h4 h5 h6 h7 h8 h9]
  obtain sh rows where
    m: "input_fn sample_loads body_empty_contact ''application/json'' = Inr (NDArray sh rows)"
    by blast
  have e: "input_fn sample_loads body_empty_contact ''application/json'' =
     Inr (NDArray [2, 3] [JArr [JFloat 0, JFloat 9, JFloat 0.5],
                          JArr [JFloat 0, JFloat 12, JFloat 0.5]])"
    using h1 by (simp add: input_fn_def np_array_def dict_get_def array_dtype_def
        result_type_def float64_exact)
  from m h1 e show ?thesis by blast
qed

text \<open>
  The claim as it was stated passes every present value through unchanged. In
  \<^verbatim>\<open>{"contacts": [{"day_of_week": 9007199254740993}]}\<close> the default 0.5 makes the array a
  \<^verbatim>\<open>float64\<close> array, and the day comes back as \<open>9007199254740992\<close>.
\<close>

theorem input_fn_batch_defaults_counterexample:
  "sample_loads body_big_contact =
     Some (JObj [(''contacts'', JArr [JObj [(''day_of_week'', JInt 9007199254740993)]])]) \<and>
   list_all PartialContact [JObj [(''day_of_week'', JInt 9007199254740993)]] \<and>
   input_fn sample_loads body_big_contact ''application/json'' =
     Inr (NDArray [1, 3] [JArr [JFloat 9007199254740992, JFloat 12, JFloat 0.5]]) \<and>
   number_value (JFloat 9007199254740992) \<noteq> number_value (JInt 9007199254740993)"
  by (simp add: sample_loads_def body_defs input_fn_def np_array_def array_dtype_def
      result_type_def dict_get_def numeric_field_def float64_of_int_example float64_exact)

text \<open>
  Claim C8. A Batch payload whose sequence of contacts is empty is normalised, without an
  error, to an array of zero rows; and \<open>output_fn\<close> on a prediction batch of zero rows
  returns the response \<^verbatim>\<open>{"optimal_hours": [], "confidence": []}\<close>.
\<close>

theorem empty_batch:
  "(json_loads request_body = Some (JObj payload) \<and> map_of payload ''features'' = None \<and>
    map_of payload ''contacts'' = Some (JArr []) \<longrightarrow>
      input_fn json_loads request_body ''application/json'' = Inr (NDArray [0] [])) \<and>
   output_fn \<lparr>predictions = [], probabilities = []\<rparr> ''application/json'' =
     Inr (\<lparr>optimal_hours = [], confidence = []\<rparr>, ''application/json'')"
  by (simp add: input_fn_def np_array_def array_dtype_def result_type_def output_fn_def)

theorem empty_batch_witness:
  "sample_loads body_no_contacts = Some (JObj [(''contacts'', JArr [])]) \<and>
   input_fn sample_loads body_no_contacts ''application/json'' = Inr (NDArray [0] []) \<and>
   output_fn \<lparr>predictions = [], probabilities = []\<rparr> ''application/json'' =
     Inr (\<lparr>optimal_hours = [], confidence = []\<rparr>, ''application/json'')"
proof -
  have h: "sample_loads body_no_contacts = Some (JObj [(''contacts'', JArr [])])"
    by (simp add: sample_loads_def body_defs)
  show ?thesis
    using h empty_batch [of sample_loads body_no_contacts "[(''contacts'', JArr [])]"]
    by simp
qed

subsection \<open>Payloads with both keys\<close>

text \<open>
  Claim C10. For every decoded payload that has both the key \<^verbatim>\<open>'features'\<close> and the key
  \<^verbatim>\<open>'contacts'\<close>, \<open>input_fn\<close> takes the Single branch: the result is the array built from
  the value of \<^verbatim>\<open>'features'\<close> alone (the one-row matrix when that value is a feature
  triple), whatever \<^verbatim>\<open>'contacts'\<close> is bound to; it is the result of every payload with
  the same value under \<^verbatim>\<open>'features'\<close>.
\<close>

theorem features_take_precedence:
  assumes "json_loads request_body = Some (JObj payload)"
    and "map_of payload ''features'' = Some row"
    and "map_of payload ''contacts'' = Some contacts"
  shows "input_fn json_loads request_body ''application/json'' = np_array [row] \<and>
         (\<forall>d h r. row = JArr [JInt d, JInt h, JFloat r] \<and> \<bar>d\<bar> \<le> 2 ^ 53 \<and> \<bar>h\<bar> \<le> 2 ^ 53 \<longrightarrow>
            input_fn json_loads request_body ''application/json'' =
              Inr (NDArray [1, 3] [JArr [JFloat (of_int d), JFloat (of_int h), JFloat r]])) \<and>
         (\<forall>json_loads' request_body' payload'.
            json_loads' request_body' = Some (JObj payload') \<and>
            map_of payload' ''features'' = Some row \<longrightarrow>
            input_fn json_loads' request_body' ''application/json'' =
              input_fn json_loads request_body ''application/json'')"
proof -
  have 1: "input_fn json_loads request_body ''application/json'' = np_array [row]"
    using input_fn_features [of json_loads request_body payload, OF assms(1,2)] .
  have 2: "input_fn json_loads request_body ''application/json'' =
      Inr (NDArray [1, 3] [JArr [JFloat (of_int d), JFloat (of_int h), JFloat r]])"
    if "row = JArr [JInt d, JInt h, JFloat r] \<and> \<bar>d\<bar> \<le> 2 ^ 53 \<and> \<bar>h\<bar> \<le> 2 ^ 53" for d h r
  proof -
    from that have "array_dtype [row] = Float64"
      by (auto simp: array_dtype_def result_type_def)
    with that 1 show ?thesis
      using np_array_rows [of "[row]"] by (simp add: float64_exact)
  qed
  have 3: "input_fn json_loads' request_body' ''application/json'' =
        input_fn json_loads request_body ''application/json''"
    if "json_loads' request_body' = Some (JObj payload')"
      "map_of payload' ''features'' = Some row" for json_loads' request_body' payload'
    using 1 input_fn_features [of json_loads' request_body' payload', OF that] by simp
  from 1 2 3 show ?thesis by blast
qed

theorem features_take_precedence_witness:
  "sample_loads body_both_keys =
     Some (JObj [(''features'', JArr [JInt 1, JInt 10, JFloat 0.5]), (''contacts'', JInt 5)]) \<and>
   input_fn sample_loads body_both_keys ''application/json'' =
     Inr (NDArray [1, 3] [JArr [JFloat 1, JFloat 10, JFloat 0.5]]) \<and>
   input_fn sample_loads body_both_keys ''application/json'' =
     input_fn sample_loads body_single ''application/json''"
proof -
  let ?p = "[(''features'', JArr [JInt 1, JInt 10, JFloat 0.5]), (''contacts'', JInt 5)]"
  have h1: "sample_loads body_both_keys = Some (JObj ?p)"
    by (simp add: sample_loads_def body_defs)
  have h2: "map_of ?p ''features'' = Some (JArr [JInt 1, JInt 10, JFloat 0.5])" by simp
  have h3: "map_of ?p ''contacts'' = Some (JInt 5)" by simp
  have h4: "sample_loads body_single =
      Some (JObj [(''features'', JArr [JInt 1, JInt 10, JFloat 0.5])])"
    by (simp add: sample_loads_def)
  note t = features_take_precedence [of sample_loads body_both_keys ?p _ "JInt 5", OF h1 h2 h3]
  from t have "JArr [JInt 1, JInt 10, JFloat 0.5] = JArr [JInt 1, JInt 10, JFloat 0.5] \<and>
      \<bar>1::int\<bar> \<le> 2 ^ 53 \<and> \<bar>10::int\<bar> \<le> 2 ^ 53 \<longrightarrow>
    input_fn sample_loads body_both_keys ''application/json'' =
     Inr (NDArray [1, 3] [JArr [JFloat (of_int 1), JFloat (of_int 10), JFloat 0.5]])"
    by blast
  then have a: "input_fn sample_loads body_both_keys ''application/json'' =
     Inr (NDArray [1, 3] [JArr [JFloat 1, JFloat 10, JFloat 0.5]])"
    by simp
  from t h4 have b: "input_fn sample_loads body_single ''application/json'' =
     input_fn sample_loads body_both_keys ''application/json''"
    by simp
  from h1 a b show ?thesis by simp
qed

section \<open>Properties of the formatter\<close>

subsection \<open>Auxiliary facts\<close>

lemma py_max_Max: "py_max (x # xs) = Inr (Max (set (x # xs)))"
proof -
  have "(\<lambda>item best. if item > best then item else best) = (max :: real \<Rightarrow> real \<Rightarrow> real)"
    by (intro ext) (simp add: max_def)
  then have "py_max (x # xs) = Inr (fold max xs x)"
    by simp
  also have "fold max xs x = Max (set (x # xs))"
    by (rule Max.set_eq_fold [symmetric])
  finally show ?thesis .
qed

lemma max_of_rows_Max:
  "[] \<notin> set rows \<Longrightarrow> max_of_rows rows = Inr (map (\<lambda>row. Max (set row)) rows)"
proof (induction rows)
  case Nil
  then show ?case by simp
next
  case (Cons row rows)
  then obtain x xs where "row = x # xs"
    by (cases row) auto
  with Cons show ?case
    by (simp add: py_max_Max del: py_max.simps)
qed

lemma max_of_rows_error:
  "max_of_rows rows = Inl e \<Longrightarrow> e = ValueError ''max() arg is an empty sequence''"
proof (induction rows arbitrary: e)
  case Nil
  then show ?case by simp
next
  case (Cons row rows)
  then show ?case
    by (cases row) (auto split: sum.splits)
qed

lemma member_le_sum_list_real:
  fixes xs :: "real list"
  assumes "\<forall>y\<in>set xs. 0 \<le> y" and "x \<in> set xs"
  shows "x \<le> sum_list xs"
  using assms
proof (induction xs)
  case Nil
  then show ?case by simp
next
  case (Cons a xs)
  then have "0 \<le> sum_list xs" by (simp add: sum_list_nonneg)
  with Cons show ?case by auto
qed

text \<open>One empty row is enough for \<open>output_fn\<close> to raise: \<^verbatim>\<open>max\<close> has nothing to return.\<close>

lemma max_of_rows_empty_row:
  "[] \<in> set rows \<Longrightarrow> max_of_rows rows = Inl (ValueError ''max() arg is an empty sequence'')"
proof (induction rows)
  case Nil
  then show ?case by simp
next
  case (Cons row rows)
  show ?case
  proof (cases row)
    case Nil
    then show ?thesis by simp
  next
    case (Cons x xs)
    with Cons.prems Cons.IH show ?thesis
      by (auto simp del: py_max.simps simp add: py_max_Max)
  qed
qed

lemma output_fn_empty_row:
  "[] \<in> set (probabilities p) \<Longrightarrow>
   output_fn p ''application/json'' = Inl (ValueError ''max() arg is an empty sequence'')"
  by (simp add: output_fn_def max_of_rows_empty_row)

lemma PredictionBatch_rows: "PredictionBatch p \<Longrightarrow> [] \<notin> set (probabilities p)"
  by (auto simp: PredictionBatch_def list_all_iff)

lemma output_fn_Max:
  assumes "[] \<notin> set (probabilities p)"
  shows "output_fn p ''application/json'' =
     Inr (\<lparr>optimal_hours = predictions p,
           confidence = map (\<lambda>row. Max (set row)) (probabilities p)\<rparr>, ''application/json'')"
  using max_of_rows_Max [OF assms] by (simp add: output_fn_def)

subsection \<open>Confidence\<close>

text \<open>
  Claim C4. For every prediction batch whose distributions are non-negative numbers
  summing to 1, \<open>output_fn\<close> with the accept type \<^verbatim>\<open>application/json\<close> returns, at
  every row index \<open>i\<close>, a confidence equal to the maximum of the \<open>i\<close>-th distribution, and
  this value lies between 0 and 1; the confidences are the same whatever the predicted
  labels are.
\<close>

theorem confidence_is_max:
  assumes "PredictionBatch prediction" and "nonnegative_probabilities prediction"
  shows "\<exists>conf. output_fn prediction ''application/json'' =
            Inr (\<lparr>optimal_hours = predictions prediction, confidence = conf\<rparr>,
                 ''application/json'') \<and>
          length conf = length (probabilities prediction) \<and>
          (\<forall>i<length (probabilities prediction).
             conf ! i = Max (set (probabilities prediction ! i)) \<and>
             0 \<le> conf ! i \<and> conf ! i \<le> 1) \<and>
          (\<forall>labels. output_fn (prediction\<lparr>predictions := labels\<rparr>) ''application/json'' =
             Inr (\<lparr>optimal_hours = labels, confidence = conf\<rparr>, ''application/json''))"
proof -
  let ?P = "probabilities prediction"
  let ?conf = "map (\<lambda>row. Max (set row)) ?P"
  have ne: "[] \<notin> set ?P"
    using assms(1) by (rule PredictionBatch_rows)
  have out: "output_fn prediction ''application/json'' =
      Inr (\<lparr>optimal_hours = predictions prediction, confidence = ?conf\<rparr>, ''application/json'')"
    using ne by (rule output_fn_Max)
  have lab: "output_fn (prediction\<lparr>predictions := labels\<rparr>) ''application/json'' =
      Inr (\<lparr>optimal_hours = labels, confidence = ?conf\<rparr>, ''application/json'')" for labels
    using output_fn_Max [of "prediction\<lparr>predictions := labels\<rparr>"] ne by simp
  have bounds: "?conf ! i = Max (set (?P ! i)) \<and> 0 \<le> ?conf ! i \<and> ?conf ! i \<le> 1"
    if "i < length ?P" for i
  proof -
    let ?row = "?P ! i"
    from that have mem: "?row \<in> set ?P" by simp
    with ne have "?row \<noteq> []" by metis
    then have in_row: "Max (set ?row) \<in> set ?row"
      by (simp add: Max_in)
    from mem assms have nonneg: "\<forall>y\<in>set ?row. 0 \<le> y" and total: "sum_list ?row = 1"
      by (auto simp: PredictionBatch_def nonnegative_probabilities_def list_all_iff)
    from member_le_sum_list_real [OF nonneg in_row] total have "Max (set ?row) \<le> 1"
      by simp
    moreover from nonneg in_row have "0 \<le> Max (set ?row)" by blast
    ultimately show ?thesis using that by simp
  qed
  from out lab bounds show ?thesis
    by (intro exI [of _ ?conf]) simp
qed

theorem confidence_is_max_witness:
  "PredictionBatch \<lparr>predictions = [10, 14], probabilities = [[0.1, 0.85, 0.05], [0.5, 0.5]]\<rparr> \<and>
   nonnegative_probabilities \<lparr>predictions = [10, 14], probabilities = [[0.1, 0.85, 0.05], [0.5, 0.5]]\<rparr> \<and>
   output_fn \<lparr>predictions = [10, 14], probabilities = [[0.1, 0.85, 0.05], [0.5, 0.5]]\<rparr>
       ''application/json'' =
     Inr (\<lparr>optimal_hours = [10, 14], confidence = [0.85, 0.5]\<rparr>, ''application/json'')"
proof -
  let ?p = "\<lparr>predictions = [10, 14], probabilities = [[0.1, 0.85, 0.05], [0.5, 0.5]]\<rparr>"
  have h1: "PredictionBatch ?p" by (simp add: PredictionBatch_def)
  have h2: "nonnegative_probabilities ?p" by (simp add: nonnegative_probabilities_def)
  from confidence_is_max [OF h1 h2] obtain conf where
    "output_fn ?p ''application/json'' =
       Inr (\<lparr>optimal_hours = predictions ?p, confidence = conf\<rparr>, ''application/json'')"
    by blast
  moreover have "output_fn ?p ''application/json'' =
     Inr (\<lparr>optimal_hours = [10, 14], confidence = [0.85, 0.5]\<rparr>, ''application/json'')"
    by (simp add: output_fn_def)
  ultimately show ?thesis using h1 h2 by simp
qed

subsection \<open>Totality\<close>

text \<open>
  Claim C9. For every prediction batch in which the labels and the probability matrix
  have the same length \<open>N\<close>, \<open>output_fn\<close> with the accept type \<^verbatim>\<open>application/json\<close>
  returns a response, and both \<^verbatim>\<open>optimal_hours\<close> and \<^verbatim>\<open>confidence\<close> have length \<open>N\<close>.
  (The rows of a prediction batch are distributions, hence not empty; Python's \<^verbatim>\<open>max\<close>
  of an empty row raises \<^verbatim>\<open>ValueError\<close>.)
\<close>

theorem output_fn_total:
  assumes "PredictionBatch prediction"
    and "length (predictions prediction) = N"
    and "length (probabilities prediction) = N"
  shows "\<exists>result. output_fn prediction ''application/json'' = Inr (result, ''application/json'') \<and>
           length (optimal_hours result) = N \<and> length (confidence result) = N"
  using output_fn_Max [OF PredictionBatch_rows [OF assms(1)]] assms(2,3) by simp

theorem output_fn_total_witness:
  "PredictionBatch \<lparr>predictions = [10, 19, 14], probabilities = [[1], [0.25, 0.75], [0.5, 0.25, 0.25]]\<rparr> \<and>
   output_fn \<lparr>predictions = [10, 19, 14], probabilities = [[1], [0.25, 0.75], [0.5, 0.25, 0.25]]\<rparr>
       ''application/json'' =
     Inr (\<lparr>optimal_hours = [10, 19, 14], confidence = [1, 0.75, 0.5]\<rparr>, ''application/json'')"
proof -
  let ?p = "\<lparr>predictions = [10, 19, 14],
             probabilities = [[1], [0.25, 0.75], [0.5, 0.25, 0.25]]\<rparr>"
  have h1: "PredictionBatch ?p" by (simp add: PredictionBatch_def)
  have h2: "length (predictions ?p) = 3" by simp
  have h3: "length (probabilities ?p) = 3" by simp
  from output_fn_total [OF h1 h2 h3] obtain result where
    "output_fn ?p ''application/json'' = Inr (result, ''application/json'')"
    by blast
  moreover have "output_fn ?p ''application/json'' =
     Inr (\<lparr>optimal_hours = [10, 19, 14], confidence = [1, 0.75, 0.5]\<rparr>, ''application/json'')"
    by (simp add: output_fn_def)
  ultimately show ?thesis using h1 by simp
qed

section \<open>Errors\<close>

subsection \<open>Which exceptions the handlers raise\<close>

lemma build_features_error: "build_features cs acc = Inl e \<Longrightarrow> e = AttributeError"
proof (induction cs arbitrary: acc)
  case Nil
  then show ?case by simp
next
  case (Cons c cs)
  then show ?case
    by (cases c) (auto split: sum.splits)
qed

lemma np_array_error:
  "np_array xs = Inl e \<Longrightarrow> e = ValueError ''setting an array element with a sequence.''"
  by (auto simp: np_array_def split: option.splits if_splits)

lemma py_contains_error: "py_contains k v = Inl e \<Longrightarrow> e = TypeError"
  by (cases v) auto

lemma py_getitem_error: "py_getitem v k = Inl e \<Longrightarrow> e = TypeError \<or> e = KeyError"
  by (cases v) (auto split: option.splits)

lemma py_iter_error: "py_iter v = Inl e \<Longrightarrow> e = TypeError"
  by (cases v) auto

lemma input_fn_error:
  assumes "input_fn json_loads request_body ''application/json'' = Inl e"
  shows "e = JSONDecodeError \<or> e = TypeError \<or> e = AttributeError \<or> e = KeyError \<or>
         e = ValueError ''setting an array element with a sequence.'' \<or>
         e = ValueError ''Input must contain 'features' or 'contacts' key''"
  using assms
  by (auto simp: input_fn_def split: option.splits sum.splits bool.splits
      dest: build_features_error np_array_error py_contains_error py_getitem_error py_iter_error)

lemma input_fn_decoded_error:
  assumes "json_loads request_body = Some v"
    and "input_fn json_loads request_body ''application/json'' = Inl e"
  shows "e \<noteq> JSONDecodeError"
  using assms
  by (auto simp: input_fn_def split: sum.splits bool.splits
      dest: build_features_error np_array_error py_contains_error py_getitem_error py_iter_error)

lemma input_fn_contacts_error:
  assumes "json_loads request_body = Some (JObj payload)"
    and "map_of payload ''features'' = None" and "map_of payload ''contacts'' = Some c"
  shows "input_fn json_loads request_body ''application/json'' \<noteq>
           Inl (ValueError ''Input must contain 'features' or 'contacts' key'')"
  using assms
  by (auto simp: input_fn_def split: sum.splits
      dest: build_features_error np_array_error py_iter_error)

lemma input_fn_validation_iff:
  assumes "json_loads request_body = Some v"
  shows "input_fn json_loads request_body ''application/json'' =
           Inl (ValueError ''Input must contain 'features' or 'contacts' key'') \<longleftrightarrow>
         py_contains ''features'' v = Inr False \<and> py_contains ''contacts'' v = Inr False"
  using assms
  by (auto simp: input_fn_def split: sum.splits bool.splits
      dest: build_features_error np_array_error py_contains_error py_getitem_error py_iter_error)

lemma input_fn_scalar_payload:
  assumes "json_loads request_body = Some v" and "is_scalar_payload v"
  shows "input_fn json_loads request_body ''application/json'' = Inl TypeError"
  using assms by (cases v) (simp_all add: input_fn_def)

lemma not_json_rejected:
  "rejects_non_values json_loads \<Longrightarrow> json_loads ''not json'' = None"
  by (simp add: rejects_non_values_def json_whitespace_def is_digit_def)

lemma sample_loads_rejects: "rejects_non_values sample_loads"
  unfolding rejects_non_values_def
proof (intro allI impI)
  fix s
  assume no_value: "\<not> value_start (dropWhile json_whitespace s)"
  show "sample_loads s = None"
  proof (rule ccontr)
    assume "sample_loads s \<noteq> None"
    then have "s \<in> {body_single, body_batch, body_data, body_empty_object, body_no_contacts,
        body_empty_contact, body_scalar_features, body_null_features, body_both_keys,
        body_big_features, body_big_contact, body_number}"
      by (auto simp: sample_loads_def split: if_splits)
    then have "value_start (dropWhile json_whitespace s)"
      by (auto simp: body_defs json_whitespace_def is_digit_def)
    with no_value show False by contradiction
  qed
qed

lemma np_array_scalar: "\<not> is_sequence v \<Longrightarrow> np_array [v] = Inr (NDArray [1] [v])"
  by (cases v) (simp_all add: np_array_def array_dtype_def result_type_def)

subsection \<open>Validation and decoding errors\<close>

text \<open>
  Claim C5, as amended. On a payload that decodes to a mapping, \<open>input_fn\<close> raises its
  validation error (the \<^verbatim>\<open>ValueError\<close> with the message
  \<^verbatim>\<open>Input must contain 'features' or 'contacts' key\<close>) exactly when the mapping has neither
  the key \<^verbatim>\<open>'features'\<close> nor the key \<^verbatim>\<open>'contacts'\<close>; on a payload that decodes to a number,
  a boolean or \<^verbatim>\<open>null\<close> it raises \<^verbatim>\<open>TypeError\<close>. On every decoded payload it raises the
  validation error exactly when both tests \<^verbatim>\<open>'features' in input_data\<close> and
  \<^verbatim>\<open>'contacts' in input_data\<close> return \<^verbatim>\<open>False\<close>. It raises \<^verbatim>\<open>json.JSONDecodeError\<close> exactly
  when the body cannot be decoded, so never for a payload that raises the validation
  error: the two failures are told apart by the exception. The decoded payload
  \<^verbatim>\<open>{"data": [1, 2, 3]}\<close> raises the validation error, and the text \<^verbatim>\<open>not json\<close> raises
  \<^verbatim>\<open>json.JSONDecodeError\<close> with every decoder that rejects what is not the start of a
  value.
\<close>

theorem validation_error_on_mappings:
  "(json_loads request_body = Some (JObj payload) \<longrightarrow>
      (input_fn json_loads request_body ''application/json'' =
         Inl (ValueError ''Input must contain 'features' or 'contacts' key'') \<longleftrightarrow>
       map_of payload ''features'' = None \<and> map_of payload ''contacts'' = None)) \<and>
   (json_loads request_body = Some v \<longrightarrow>
      (input_fn json_loads request_body ''application/json'' =
         Inl (ValueError ''Input must contain 'features' or 'contacts' key'') \<longleftrightarrow>
       py_contains ''features'' v = Inr False \<and> py_contains ''contacts'' v = Inr False)) \<and>
   (json_loads request_body = Some v \<and> is_scalar_payload v \<longrightarrow>
      input_fn json_loads request_body ''application/json'' = Inl TypeError) \<and>
   (input_fn json_loads request_body ''application/json'' = Inl JSONDecodeError \<longleftrightarrow>
      json_loads request_body = None) \<and>
   (json_loads request_body = Some (JObj [(''data'', JArr [JInt 1, JInt 2, JInt 3])]) \<longrightarrow>
      input_fn json_loads request_body ''application/json'' =
        Inl (ValueError ''Input must contain 'features' or 'contacts' key'')) \<and>
   (rejects_non_values json_loads \<longrightarrow>
      input_fn json_loads ''not json'' ''application/json'' = Inl JSONDecodeError)"
proof -
  let ?validation = "Inl (ValueError ''Input must contain 'features' or 'contacts' key'')"
  let ?result = "input_fn json_loads request_body ''application/json''"
  have 1: "?result = ?validation \<longleftrightarrow>
      map_of payload ''features'' = None \<and> map_of payload ''contacts'' = None"
    if decoded: "json_loads request_body = Some (JObj payload)"
  proof
    assume failed: "?result = ?validation"
    show "map_of payload ''features'' = None \<and> map_of payload ''contacts'' = None"
    proof (cases "map_of payload ''features''")
      case (Some row)
      with decoded have "?result = np_array [row]"
        by (simp add: input_fn_def)
      with failed show ?thesis
        by (auto dest: np_array_error)
    next
      case None
      with decoded failed show ?thesis
        using input_fn_contacts_error [of json_loads request_body payload]
        by (cases "map_of payload ''contacts''") auto
    qed
  next
    assume "map_of payload ''features'' = None \<and> map_of payload ''contacts'' = None"
    with decoded show "?result = ?validation"
      by (simp add: input_fn_def)
  qed
  have 6: "?result = ?validation \<longleftrightarrow>
      py_contains ''features'' v = Inr False \<and> py_contains ''contacts'' v = Inr False"
    if "json_loads request_body = Some v"
    using that by (rule input_fn_validation_iff)
  have 2: "?result = Inl TypeError" if "json_loads request_body = Some v \<and> is_scalar_payload v"
    using that input_fn_scalar_payload [of json_loads request_body v] by simp
  have 3: "?result = Inl JSONDecodeError \<longleftrightarrow> json_loads request_body = None"
  proof
    assume "?result = Inl JSONDecodeError"
    then show "json_loads request_body = None"
      using input_fn_decoded_error [of json_loads request_body]
      by (cases "json_loads request_body") auto
  next
    assume "json_loads request_body = None"
    then show "?result = Inl JSONDecodeError"
      by (simp add: input_fn_def)
  qed
  have 4: "?result = ?validation"
    if "json_loads request_body = Some (JObj [(''data'', JArr [JInt 1, JInt 2, JInt 3])])"
    using that by (simp add: input_fn_def)
  have 5: "input_fn json_loads ''not json'' ''application/json'' = Inl JSONDecodeError"
    if "rejects_non_values json_loads"
    using not_json_rejected [OF that] by (simp add: input_fn_def)
  from 1 2 3 4 5 6 show ?thesis by blast
qed

theorem validation_error_on_mappings_witness:
  "sample_loads body_data = Some (JObj [(''data'', JArr [JInt 1, JInt 2, JInt 3])]) \<and>
   input_fn sample_loads body_data ''application/json'' =
     Inl (ValueError ''Input must contain 'features' or 'contacts' key'') \<and>
   sample_loads body_number = Some (JInt 5) \<and> is_scalar_payload (JInt 5) \<and>
   input_fn sample_loads body_number ''application/json'' = Inl TypeError \<and>
   rejects_non_values sample_loads \<and>
   input_fn sample_loads ''not json'' ''application/json'' = Inl JSONDecodeError"
proof -
  have h3: "sample_loads body_number = Some (JInt 5) \<and> is_scalar_payload (JInt 5)"
    by (simp add: sample_loads_def body_defs)
  have h1: "sample_loads body_data = Some (JObj [(''data'', JArr [JInt 1, JInt 2, JInt 3])])"
    by (simp add: sample_loads_def body_defs)
  have h2: "rejects_non_values sample_loads"
    by (rule sample_loads_rejects)
  note t = validation_error_on_mappings [of sample_loads body_data
      "[(''data'', JArr [JInt 1, JInt 2, JInt 3])]" JNull]
  from t h1 have a: "input_fn sample_loads body_data ''application/json'' =
     Inl (ValueError ''Input must contain 'features' or 'contacts' key'')"
    by blast
  from t h2 have b: "input_fn sample_loads ''not json'' ''application/json'' =
      Inl JSONDecodeError"
    by blast
  from validation_error_on_mappings [of sample_loads body_number "[]" "JInt 5"] h3
  have c: "input_fn sample_loads body_number ''application/json'' = Inl TypeError"
    by blast
  from h1 h2 h3 a b c show ?thesis by blast
qed

text \<open>
  The claim as it was stated has the validation error for every decoded payload without
  the two keys. The body \<^verbatim>\<open>5\<close> is decoded to the number 5, which has no keys; the test
  \<^verbatim>\<open>'features' in input_data\<close> raises \<^verbatim>\<open>TypeError\<close> before the handler reaches its own
  \<^verbatim>\<open>raise\<close>.
\<close>

theorem validation_error_counterexample:
  "sample_loads body_number = Some (JInt 5) \<and>
   input_fn sample_loads body_number ''application/json'' = Inl TypeError \<and>
   input_fn sample_loads body_number ''application/json'' \<noteq>
     Inl (ValueError ''Input must contain 'features' or 'contacts' key'')"
  by (simp add: sample_loads_def body_defs input_fn_def)

subsection \<open>A value under \<^verbatim>\<open>'features'\<close> that is not a sequence\<close>

text \<open>
  Claim C6, as amended. For every decoded mapping whose key \<^verbatim>\<open>'features'\<close> is bound to a
  value that is not a sequence, \<open>input_fn\<close> raises nothing: it returns the one-dimensional
  array with that value as its only entry. The handler does not look at the shape of the
  value before it passes it to \<^verbatim>\<open>np.array\<close>.
\<close>

theorem non_sequence_features_accepted:
  assumes "json_loads request_body = Some (JObj payload)"
    and "map_of payload ''features'' = Some v"
    and "\<not> is_sequence v"
  shows "input_fn json_loads request_body ''application/json'' = Inr (NDArray [1] [v])"
  using input_fn_features [of json_loads request_body payload, OF assms(1,2)]
    np_array_scalar [OF assms(3)]
  by simp

theorem non_sequence_features_accepted_witness:
  "sample_loads body_null_features = Some (JObj [(''features'', JNull)]) \<and>
   \<not> is_sequence JNull \<and>
   input_fn sample_loads body_null_features ''application/json'' = Inr (NDArray [1] [JNull])"
proof -
  have h1: "sample_loads body_null_features = Some (JObj [(''features'', JNull)])"
    by (simp add: sample_loads_def body_defs)
  have h2: "map_of [(''features'', JNull)] ''features'' = Some JNull" by simp
  have h3: "\<not> is_sequence JNull" by simp
  from non_sequence_features_accepted [of sample_loads body_null_features _ JNull, OF h1 h2 h3]
    h1 h3
  show ?thesis by simp
qed

text \<open>
  The claim as it was stated asks for a validation error here. The payload
  \<^verbatim>\<open>{"features": 5}\<close> is decoded, its \<^verbatim>\<open>'features'\<close> value is a number, and
  \<open>input_fn\<close> returns \<^verbatim>\<open>np.array([5])\<close>.
\<close>

theorem non_sequence_features_counterexample:
  "sample_loads body_scalar_features = Some (JObj [(''features'', JInt 5)]) \<and>
   \<not> is_sequence (JInt 5) \<and>
   input_fn sample_loads body_scalar_features ''application/json'' = Inr (NDArray [1] [JInt 5]) \<and>
   input_fn sample_loads body_scalar_features ''application/json'' \<noteq>
     Inl (ValueError ''Input must contain 'features' or 'contacts' key'')"
  by (simp add: sample_loads_def body_defs input_fn_def np_array_def array_dtype_def
      result_type_def)

subsection \<open>Unsupported content and accept types\<close>

text \<open>
  Claim C7. For every content type other than \<^verbatim>\<open>application/json\<close>, \<open>input_fn\<close> raises
  the \<^verbatim>\<open>ValueError\<close> that names the unsupported content type, whatever the decoder and the
  body are (the body is not decoded); for every accept type other than
  \<^verbatim>\<open>application/json\<close>, \<open>output_fn\<close> raises the \<^verbatim>\<open>ValueError\<close> that names the
  unsupported accept type and returns no response. With \<^verbatim>\<open>application/json\<close> neither
  function raises an error whose message starts with \<^verbatim>\<open>Unsupported\<close>.
\<close>

theorem unsupported_media:
  "(content_type \<noteq> ''application/json'' \<longrightarrow>
      input_fn json_loads request_body content_type =
        Inl (ValueError (''Unsupported content type: '' @ content_type))) \<and>
   (accept \<noteq> ''application/json'' \<longrightarrow>
      output_fn prediction accept = Inl (ValueError (''Unsupported accept type: '' @ accept))) \<and>
   (\<forall>m. input_fn json_loads request_body ''application/json'' \<noteq>
      Inl (ValueError (''Unsupported '' @ m))) \<and>
   (\<forall>m. output_fn prediction ''application/json'' \<noteq> Inl (ValueError (''Unsupported '' @ m)))"
proof -
  have 1: "input_fn json_loads request_body ''application/json'' \<noteq>
      Inl (ValueError (''Unsupported '' @ m))" for m
    using input_fn_error [of json_loads request_body "ValueError (''Unsupported '' @ m)"]
    by auto
  have 2: "output_fn prediction ''application/json'' \<noteq> Inl (ValueError (''Unsupported '' @ m))"
    for m
    by (auto simp: output_fn_def split: sum.splits dest: max_of_rows_error)
  from 1 2 show ?thesis
    by (simp add: input_fn_def output_fn_def)
qed

theorem unsupported_media_witness:
  "input_fn sample_loads body_single ''text/csv'' =
     Inl (ValueError ''Unsupported content type: text/csv'') \<and>
   input_fn sample_loads body_not_json ''text/csv'' =
     Inl (ValueError ''Unsupported content type: text/csv'') \<and>
   output_fn \<lparr>predictions = [10], probabilities = [[0.15, 0.85]]\<rparr> ''text/csv'' =
     Inl (ValueError ''Unsupported accept type: text/csv'') \<and>
   input_fn sample_loads body_single ''application/json'' =
     Inr (NDArray [1, 3] [JArr [JFloat 1, JFloat 10, JFloat 0.5]]) \<and>
   output_fn \<lparr>predictions = [10], probabilities = [[0.15, 0.85]]\<rparr> ''application/json'' =
     Inr (\<lparr>optimal_hours = [10], confidence = [0.85]\<rparr>, ''application/json'')"
proof -
  have ne: "''text/csv'' \<noteq> ''application/json''" by simp
  from unsupported_media [of "''text/csv''" sample_loads body_single "''text/csv''"
      "\<lparr>predictions = [10], probabilities = [[0.15, 0.85]]\<rparr>"] ne
  have a: "input_fn sample_loads body_single ''text/csv'' =
       Inl (ValueError ''Unsupported content type: text/csv'')"
    and b: "output_fn \<lparr>predictions = [10], probabilities = [[0.15, 0.85]]\<rparr> ''text/csv'' =
       Inl (ValueError ''Unsupported accept type: text/csv'')"
    by simp_all
  have c: "input_fn sample_loads body_not_json ''text/csv'' =
       Inl (ValueError ''Unsupported content type: text/csv'')"
    by (simp add: input_fn_def)
  have d: "input_fn sample_loads body_single ''application/json'' =
     Inr (NDArray [1, 3] [JArr [JFloat 1, JFloat 10, JFloat 0.5]])"
    by (simp add: input_fn_def sample_loads_def np_array_def array_dtype_def result_type_def
        float64_exact)
  have e: "output_fn \<lparr>predictions = [10], probabilities = [[0.15, 0.85]]\<rparr> ''application/json'' =
     Inr (\<lparr>optimal_hours = [10], confidence = [0.85]\<rparr>, ''application/json'')"
    by (simp add: output_fn_def)
  from a b c d e show ?thesis by simp
qed

end
